theory Spec2Isabelle
  imports
    Complex_Main
    "HOL-Library.Sublist"
    "HOL-Library.Char_ord"
    "HOL-Library.List_Lexorder"
    "HOL-Library.Product_Lexorder"
begin

section \<open>The sales dashboard script \<open>Sales.py\<close>\<close>

text \<open>
  \<open>Sales.py\<close> is one straight-line script: it loads three tables, parses the
  timestamps, filters the transactions by date, left-joins them to the item list and to
  the staff roster, cleans the price columns, filters by staff name and renders metrics,
  charts and tables, one after the other. The embedding follows the script line by line.
  What the script delegates to pandas (joining, grouping, sorting) is written out as
  list functions with the behaviour pandas has at the script's arguments; the reading
  of text (numbers, timestamps) is a parameter of the model.

  Numbers: a float64 column is a list of \<open>rat option\<close>, \<open>None\<close> being NaN. Arithmetic
  is exact; the rounding of binary floating point and the infinities are not modelled.
\<close>

subsection \<open>Values, errors and tables\<close>

text \<open>The exceptions the script can raise after the tables are loaded, by the call that
  raises them: \<open>pd.to_datetime\<close> (line 28), \<open>astype(float)\<close> (lines 65 and 169) and
  \<open>idxmax\<close> (line 113). None of them is caught anywhere in the script.\<close>

datatype error = DateParseError | ValueError_float | ValueError_argmax

type_synonym float64 = "rat option"

text \<open>A cell of a column as \<open>read_csv\<close> leaves it: empty (NaN), a number, or text.\<close>

datatype cell = NaN | Num rat | Str string

record datetime =
  year :: int
  month :: int
  day :: int
  hour :: int
  minute :: int
  second :: int

text \<open>A \<open>datetime.date\<close>: year, month, day; Python orders dates as these triples.\<close>

type_synonym date = "int \<times> int \<times> int"

text \<open>The transactions table; \<open>'ts\<close> is \<open>string option\<close> as loaded and
  \<open>datetime option\<close> (\<open>None\<close> is NaT) after line 28.\<close>

record 'ts transaction =
  Timestamp :: 'ts
  Food :: "string option"
  User :: "string option"
  Customer :: "string option"
  Amount :: cell

record item =
  Item :: "string option"
  Material_Cost :: cell
  RRP :: cell
  Mates_Rates :: cell

record staff_row =
  Email :: "string option"
  Staff_Name :: "string option"

text \<open>A row of \<open>merged\<close> as it stands after line 71: the columns of the three tables,
  with \<open>RRP\<close> and \<open>Amount\<close> converted and \<open>Sales\<close> added.\<close>

record merged_row =
  mTimestamp :: "datetime option"
  mFood :: "string option"
  mUser :: "string option"
  mCustomer :: "string option"
  mAmount :: float64
  mItem :: "string option"
  mMaterial_Cost :: cell
  mRRP :: float64
  mMates_Rates :: cell
  mEmail :: "string option"
  mStaff_Name :: "string option"
  Sales :: float64

text \<open>A row of \<open>merged\<close> after line 172: the row as before (\<open>pRow\<close>), with
  \<open>Material Cost\<close> converted and \<open>Profit\<close> added.\<close>

record profit_row =
  pRow :: merged_row
  pMaterial_Cost :: float64
  Profit :: float64

subsection \<open>What the script takes from Python and pandas\<close>

text \<open>
  The script reads text in three places, each time through a library call whose
  grammar it does not fix. They are parameters of the model, so that everything proved
  holds for whatever the libraries read:
  \<^item> \<open>float_of_text\<close>: Python's \<open>float\<close> on text, as \<open>astype(float)\<close> applies it
    (lines 65 and 169); \<open>None\<close> where it raises \<open>ValueError\<close>, \<open>Some None\<close> where it
    reads NaN (the text \<open>nan\<close>);
  \<^item> \<open>numeric_of_text\<close>: \<open>pd.to_numeric(errors="coerce")\<close> on text (line 68), which
    gives NaN where the text is no number and never raises;
  \<^item> \<open>datetime_of_text\<close>: how \<open>pd.to_datetime\<close> (line 28) reads one text value of a
    column, given the whole column, from which pandas may take the layout; \<open>None\<close>
    where the value is not recognised, on which the call raises.
\<close>

record library =
  float_of_text :: "string \<Rightarrow> float64 option"
  numeric_of_text :: "string \<Rightarrow> float64"
  datetime_of_text :: "string option list \<Rightarrow> string \<Rightarrow> datetime option"

subsection \<open>Sequencing calls that may raise\<close>

fun mapM :: "('a \<Rightarrow> error + 'b) \<Rightarrow> 'a list \<Rightarrow> error + 'b list" where
  "mapM f [] = Inr []"
| "mapM f (x # xs) =
     (case f x of
        Inl e \<Rightarrow> Inl e
      | Inr y \<Rightarrow> (case mapM f xs of Inl e \<Rightarrow> Inl e | Inr ys \<Rightarrow> Inr (y # ys)))"

subsection \<open>Lines 65, 68 and 169: text to numbers\<close>

text \<open>\<open>Series.replace('[\$,]', '', regex=True)\<close>: in a text cell every \<open>$\<close> and every
  \<open>,\<close> is deleted; other cells are left as they are.\<close>

definition strip_currency :: "string \<Rightarrow> string" where
  "strip_currency s = filter (\<lambda>x. x \<noteq> CHR ''$'' \<and> x \<noteq> CHR '','') s"

definition replace_currency :: "cell \<Rightarrow> cell" where
  "replace_currency c = (case c of Str s \<Rightarrow> Str (strip_currency s) | _ \<Rightarrow> c)"

text \<open>\<open>Series.astype(float)\<close>, one cell: NaN stays NaN, a number stays, text is
  converted by \<open>float\<close>, whose \<open>ValueError\<close> is not caught.\<close>

definition astype_float :: "library \<Rightarrow> cell \<Rightarrow> error + float64" where
  "astype_float L c =
     (case c of
        NaN \<Rightarrow> Inr None
      | Num x \<Rightarrow> Inr (Some x)
      | Str s \<Rightarrow> (case float_of_text L s of None \<Rightarrow> Inl ValueError_float | Some v \<Rightarrow> Inr v))"

text \<open>Lines 65 and 169, one cell: \<open>col.replace('[\$,]', '', regex=True).astype(float)\<close>.\<close>

definition clean_currency :: "library \<Rightarrow> cell \<Rightarrow> error + float64" where
  "clean_currency L c = astype_float L (replace_currency c)"

text \<open>Line 68, one cell: \<open>pd.to_numeric(col, errors="coerce")\<close>; text that is not a
  number becomes NaN.\<close>

definition to_numeric_coerce :: "library \<Rightarrow> cell \<Rightarrow> float64" where
  "to_numeric_coerce L c =
     (case c of NaN \<Rightarrow> None | Num x \<Rightarrow> Some x | Str s \<Rightarrow> numeric_of_text L s)"

text \<open>Arithmetic on float64 cells: NaN in, NaN out.\<close>

definition fmul :: "float64 \<Rightarrow> float64 \<Rightarrow> float64" where
  "fmul a b = (case (a, b) of (Some x, Some y) \<Rightarrow> Some (x * y) | _ \<Rightarrow> None)"

definition fsub :: "float64 \<Rightarrow> float64 \<Rightarrow> float64" where
  "fsub a b = (case (a, b) of (Some x, Some y) \<Rightarrow> Some (x - y) | _ \<Rightarrow> None)"

subsection \<open>Numbers to text: the format \<open>${:,.2f}\<close>\<close>

text \<open>The decimal digits of a non-negative integer.\<close>

function show_int :: "int \<Rightarrow> string" where
  "show_int n =
     (if n < 10 then [''0123456789'' ! nat n]
      else show_int (n div 10) @ [''0123456789'' ! nat (n mod 10)])"
  by pat_completeness auto
termination
  by (relation "measure nat") auto

declare show_int.simps [simp del]

text \<open>Thousands separators, from the right.\<close>

fun commas :: "string \<Rightarrow> string" where
  "commas ds =
     (if length ds \<le> 3 then ds
      else commas (take (length ds - 3) ds) @ '','' @ drop (length ds - 3) ds)"

declare commas.simps [simp del]

text \<open>Rounding a non-negative number to the nearest integer, ties to even. The number
  rounded is the exact one; a float64 that only approximates a tie (2.675) rounds as
  the binary value it is.\<close>

definition round_half_even :: "rat \<Rightarrow> int" where
  "round_half_even q =
     (let f = \<lfloor>q\<rfloor>; d = q - of_int f in
      if d < 1 / 2 then f else if 1 / 2 < d then f + 1
      else if even f then f else f + 1)"

definition format_2f :: "rat \<Rightarrow> string" where
  "format_2f x =
     (let c = round_half_even (\<bar>x\<bar> * 100) in
      (if x < 0 then ''-'' else '''') @ commas (show_int (c div 100)) @ ''.''
        @ [''0123456789'' ! nat (c mod 100 div 10), ''0123456789'' ! nat (c mod 10)])"

text \<open>\<open>f"${x:,.2f}"\<close> and \<open>"${:,.2f}".format(x)\<close>; NaN prints as \<open>nan\<close>.\<close>

definition format_currency :: "float64 \<Rightarrow> string" where
  "format_currency v = ''$'' @ (case v of None \<Rightarrow> ''nan'' | Some x \<Rightarrow> format_2f x)"

subsection \<open>Line 28: parsing the timestamps\<close>

text \<open>\<open>pd.to_datetime\<close> with its default \<open>errors="raise"\<close>, one value of the column
  \<open>col\<close>: an empty cell becomes NaT, text that is not recognised raises.\<close>

definition to_datetime_value ::
  "library \<Rightarrow> string option list \<Rightarrow> string option \<Rightarrow> error + datetime option" where
  "to_datetime_value L col v =
     (case v of
        None \<Rightarrow> Inr None
      | Some s \<Rightarrow>
          (case datetime_of_text L col s of
             None \<Rightarrow> Inl DateParseError
           | Some t \<Rightarrow> Inr (Some t)))"

text \<open>Line 28: the \<open>Timestamp\<close> column is replaced by its parsed values; one value
  that raises makes the call raise.\<close>

definition to_datetime_row ::
  "library \<Rightarrow> string option list \<Rightarrow> string option transaction
     \<Rightarrow> error + datetime option transaction" where
  "to_datetime_row L col r =
     (case to_datetime_value L col (Timestamp r) of
        Inl e \<Rightarrow> Inl e
      | Inr t \<Rightarrow>
          Inr \<lparr>Timestamp = t, Food = Food r, User = User r, Customer = Customer r,
               Amount = Amount r\<rparr>)"

definition to_datetime ::
  "library \<Rightarrow> string option transaction list
     \<Rightarrow> error + datetime option transaction list" where
  "to_datetime L txs = mapM (to_datetime_row L (map Timestamp txs)) txs"

subsection \<open>Lines 35 to 43: the date filter\<close>

text \<open>\<open>Timestamp.date()\<close>.\<close>

definition date_of :: "datetime \<Rightarrow> date" where
  "date_of t = (year t, month t, day t)"

text \<open>Timestamps are ordered as their fields, most significant first.\<close>

definition ts_key :: "datetime \<Rightarrow> int \<times> int \<times> int \<times> int \<times> int \<times> int" where
  "ts_key t = (year t, month t, day t, hour t, minute t, second t)"

definition earlier :: "datetime \<Rightarrow> datetime \<Rightarrow> datetime" where
  "earlier a b = (if ts_key a \<le> ts_key b then a else b)"

definition later :: "datetime \<Rightarrow> datetime \<Rightarrow> datetime" where
  "later a b = (if ts_key b \<le> ts_key a then a else b)"

text \<open>Lines 35 and 36: \<open>transactions["Timestamp"].min().date()\<close> and \<open>.max().date()\<close>;
  \<open>min\<close> and \<open>max\<close> skip NaT. \<open>None\<close> where no row has a timestamp.\<close>

definition min_date :: "datetime option transaction list \<Rightarrow> date option" where
  "min_date txs =
     (case List.map_filter Timestamp txs of
        [] \<Rightarrow> None
      | t # ts \<Rightarrow> Some (date_of (fold earlier ts t)))"

definition max_date :: "datetime option transaction list \<Rightarrow> date option" where
  "max_date txs =
     (case List.map_filter Timestamp txs of
        [] \<Rightarrow> None
      | t # ts \<Rightarrow> Some (date_of (fold later ts t)))"

text \<open>Line 42, one row of \<open>mask\<close>: both comparisons are on \<open>.dt.date\<close>; for NaT they
  are false.\<close>

definition mask :: "date \<Rightarrow> date \<Rightarrow> datetime option \<Rightarrow> bool" where
  "mask start_date end_date ts =
     (case ts of
        None \<Rightarrow> False
      | Some t \<Rightarrow> start_date \<le> date_of t \<and> date_of t \<le> end_date)"

text \<open>Line 43.\<close>

definition filtered_tx ::
  "date \<Rightarrow> date \<Rightarrow> datetime option transaction list \<Rightarrow> datetime option transaction list"
  where
  "filtered_tx start_date end_date txs =
     filter (\<lambda>r. mask start_date end_date (Timestamp r)) txs"

subsection \<open>Lines 48 to 62: the two left joins\<close>

text \<open>\<open>pd.merge(left, right, how="left", left_on=lk, right_on=rk)\<close>: the left rows in
  their order, each with every right row of the same key, in the right table's order,
  or once with an all-NaN right row when there is none. pandas matches a NaN key with a
  NaN key, as the equality of \<open>option\<close> values does. The key columns are text columns;
  a key column that is empty in every loaded row is read as float64, on which
  \<open>pd.merge\<close> refuses to join a text column, and is outside the model.\<close>

definition merge_left ::
  "('l \<Rightarrow> 'k) \<Rightarrow> ('r \<Rightarrow> 'k) \<Rightarrow> 'r \<Rightarrow> 'l list \<Rightarrow> 'r list \<Rightarrow> ('l \<times> 'r) list" where
  "merge_left lk rk null ls rs =
     concat (map (\<lambda>l. case filter (\<lambda>r. rk r = lk l) rs of
                        [] \<Rightarrow> [(l, null)]
                      | ms \<Rightarrow> map (Pair l) ms) ls)"

definition null_item :: item where
  "null_item = \<lparr>Item = None, Material_Cost = NaN, RRP = NaN, Mates_Rates = NaN\<rparr>"

definition null_staff :: staff_row where
  "null_staff = \<lparr>Email = None, Staff_Name = None\<rparr>"

definition merge1 ::
  "datetime option transaction list \<Rightarrow> item list
     \<Rightarrow> (datetime option transaction \<times> item) list" where
  "merge1 txs items = merge_left Food Item null_item txs items"

text \<open>Lines 56 to 62; the source names the result \<open>merged\<close>, as it does the table with
  the converted columns below.\<close>

definition merge2 ::
  "(datetime option transaction \<times> item) list \<Rightarrow> staff_row list
     \<Rightarrow> ((datetime option transaction \<times> item) \<times> staff_row) list" where
  "merge2 m1 staff = merge_left (\<lambda>l. User (fst l)) Email null_staff m1 staff"

subsection \<open>Lines 65 to 71: \<open>RRP\<close>, \<open>Amount\<close> and \<open>Sales\<close>\<close>

definition derive_row ::
  "library \<Rightarrow> (datetime option transaction \<times> item) \<times> staff_row \<Rightarrow> error + merged_row"
  where
  "derive_row L x =
     (let t = fst (fst x); i = snd (fst x); s = snd x in
      case clean_currency L (RRP i) of
        Inl e \<Rightarrow> Inl e
      | Inr rrp \<Rightarrow>
          (let amount = to_numeric_coerce L (Amount t) in
           Inr \<lparr>mTimestamp = Timestamp t, mFood = Food t, mUser = User t,
                mCustomer = Customer t, mAmount = amount, mItem = Item i,
                mMaterial_Cost = Material_Cost i, mRRP = rrp,
                mMates_Rates = Mates_Rates i, mEmail = Email s,
                mStaff_Name = Staff_Name s, Sales = fmul amount rrp\<rparr>))"

text \<open>\<open>merged\<close> as it stands after line 71, from the parsed transactions and the date
  range chosen in the sidebar.\<close>

definition merged ::
  "library \<Rightarrow> date \<Rightarrow> date \<Rightarrow> datetime option transaction list \<Rightarrow> item list
     \<Rightarrow> staff_row list \<Rightarrow> error + merged_row list" where
  "merged L start_date end_date txs items staff =
     mapM (derive_row L)
       (merge2 (merge1 (filtered_tx start_date end_date txs) items) staff)"

subsection \<open>Lines 76 to 80: the staff filter\<close>

text \<open>\<open>Series.unique()\<close>: the distinct values, in the order of their first
  appearance.\<close>

definition unique :: "'a list \<Rightarrow> 'a list" where
  "unique xs = rev (remdups (rev xs))"

text \<open>Line 76: \<open>merged["Staff Name"].dropna().unique()\<close>, the options of the
  multiselect and its default selection.\<close>

definition staff_names :: "merged_row list \<Rightarrow> string list" where
  "staff_names m = unique (List.map_filter mStaff_Name m)"

text \<open>\<open>Series.isin(values)\<close>, one cell; the selection holds names only, and NaN is in
  no list of names.\<close>

definition isin :: "string option \<Rightarrow> string list \<Rightarrow> bool" where
  "isin v values = (case v of None \<Rightarrow> False | Some n \<Rightarrow> n \<in> set values)"

text \<open>Line 80.\<close>

definition filtered_merged :: "string list \<Rightarrow> merged_row list \<Rightarrow> merged_row list" where
  "filtered_merged selected_staff m = filter (\<lambda>r. isin (mStaff_Name r) selected_staff) m"

subsection \<open>Grouping, sorting and extremes\<close>

text \<open>\<open>df.groupby(key)\<close>: the groups are the distinct keys that are not NaN, in
  ascending order.\<close>

definition group_keys :: "('r \<Rightarrow> string option) \<Rightarrow> 'r list \<Rightarrow> string list" where
  "group_keys key rows = sort (remdups (List.map_filter key rows))"

text \<open>\<open>.sum()\<close> of one column in one group: NaN is skipped, and the sum of nothing
  is 0.\<close>

definition group_sum :: "('r \<Rightarrow> string option) \<Rightarrow> ('r \<Rightarrow> float64) \<Rightarrow> 'r list \<Rightarrow> string \<Rightarrow> rat"
  where
  "group_sum key val rows k =
     sum_list (List.map_filter val (filter (\<lambda>r. key r = Some k) rows))"

text \<open>\<open>df.groupby(key)[col].sum()\<close>: a series of sums, indexed by the keys.\<close>

definition groupby_sum ::
  "('r \<Rightarrow> string option) \<Rightarrow> ('r \<Rightarrow> float64) \<Rightarrow> 'r list \<Rightarrow> (string \<times> rat) list" where
  "groupby_sum key val rows = map (\<lambda>k. (k, group_sum key val rows k)) (group_keys key rows)"

text \<open>\<open>sort_values(ascending=False)\<close> on a column \<open>f\<close> without NaN: pandas sorts the
  reversed rows ascending and reverses the result. The sort is taken as stable, which
  numpy's default is up to 16 rows; beyond that the order within ties is numpy's.\<close>

definition sort_values_desc :: "('a \<Rightarrow> rat) \<Rightarrow> 'a list \<Rightarrow> 'a list" where
  "sort_values_desc f xs = rev (sort_key f (rev xs))"

text \<open>\<open>Series.idxmax()\<close>: the label of the first largest value; on an empty series it
  raises \<open>ValueError\<close>.\<close>

definition idxmax :: "(string \<times> rat) list \<Rightarrow> error + string" where
  "idxmax xs =
     (case xs of
        [] \<Rightarrow> Inl ValueError_argmax
      | x # ys \<Rightarrow> Inr (fst (foldl (\<lambda>best y. if snd best < snd y then y else best) x ys)))"

text \<open>\<open>Series.max()\<close>: NaN on an empty series.\<close>

definition series_max :: "(string \<times> rat) list \<Rightarrow> float64" where
  "series_max xs =
     (case xs of [] \<Rightarrow> None | x # ys \<Rightarrow> Some (foldl max (snd x) (map snd ys)))"

subsection \<open>Lines 100 to 120: the three metrics\<close>

text \<open>Line 101; \<open>Series.sum()\<close> skips NaN.\<close>

definition total_sales :: "merged_row list \<Rightarrow> rat" where
  "total_sales fm = sum_list (List.map_filter Sales fm)"

text \<open>Line 105.\<close>

definition total_transactions :: "merged_row list \<Rightarrow> int" where
  "total_transactions fm = int (length fm)"

text \<open>Lines 109 to 114.\<close>

definition top_staff :: "merged_row list \<Rightarrow> error + string" where
  "top_staff fm = idxmax (sort_values_desc snd (groupby_sum mStaff_Name Sales fm))"

text \<open>Lines 115 to 119.\<close>

definition top_sales :: "merged_row list \<Rightarrow> float64" where
  "top_sales fm = series_max (groupby_sum mStaff_Name Sales fm)"

subsection \<open>Lines 127 to 164: sales by staff and the pay summary\<close>

text \<open>Lines 127 to 132; the source names the sales by staff \<open>sales_by_item\<close>.\<close>

definition sales_by_item :: "merged_row list \<Rightarrow> (string \<times> rat) list" where
  "sales_by_item fm = sort_values_desc snd (groupby_sum mStaff_Name Sales fm)"

text \<open>Lines 154 to 163: name, sales and pay (30 percent of the sales), both formatted.\<close>

definition staff_summary :: "merged_row list \<Rightarrow> (string \<times> string \<times> string) list" where
  "staff_summary fm =
     map (\<lambda>(n, v). (n, format_currency (Some v), format_currency (Some (v * (30 / 100)))))
       (sort_values_desc snd (groupby_sum mStaff_Name Sales fm))"

subsection \<open>Lines 169 to 183: profit by item\<close>

text \<open>Lines 169 and 172, one row of \<open>merged\<close>.\<close>

definition add_profit :: "library \<Rightarrow> merged_row \<Rightarrow> error + profit_row" where
  "add_profit L r =
     (case clean_currency L (mMaterial_Cost r) of
        Inl e \<Rightarrow> Inl e
      | Inr mc \<Rightarrow>
          Inr \<lparr>pRow = r, pMaterial_Cost = mc,
               Profit = fmul (fsub (mRRP r) mc) (mAmount r)\<rparr>)"

text \<open>Lines 175 to 180: item, summed profit and summed amount, by profit descending.\<close>

definition profit_by_item :: "profit_row list \<Rightarrow> (string \<times> rat \<times> rat) list" where
  "profit_by_item pm =
     sort_values_desc (\<lambda>x. fst (snd x))
       (map (\<lambda>k. (k, group_sum (\<lambda>p. mItem (pRow p)) Profit pm k,
                     group_sum (\<lambda>p. mItem (pRow p)) (\<lambda>p. mAmount (pRow p)) pm k))
          (group_keys (\<lambda>p. mItem (pRow p)) pm))"

text \<open>Line 183.\<close>

definition top_profit_items :: "profit_row list \<Rightarrow> (string \<times> rat \<times> rat) list" where
  "top_profit_items pm = take 10 (profit_by_item pm)"

subsection \<open>Lines 201 to 236: customers and the transaction list\<close>

text \<open>Lines 201 to 207.\<close>

definition sales_by_customer :: "merged_row list \<Rightarrow> (string \<times> rat) list" where
  "sales_by_customer fm = take 10 (sort_values_desc snd (groupby_sum mCustomer Sales fm))"

text \<open>Lines 227 to 233.\<close>

definition display_df ::
  "merged_row list
     \<Rightarrow> (datetime option \<times> string option \<times> string option \<times> string option \<times> string) list"
  where
  "display_df fm =
     map (\<lambda>r. (mTimestamp r, mStaff_Name r, mFood r, mCustomer r, format_currency (Sales r)))
       fm"

subsection \<open>The script\<close>

text \<open>What the page shows, in the order the script renders it. The title, the logo, the
  headings and the axis settings of the charts are left out.\<close>

datatype element =
    Metric string string "string option"
  | Staff_Chart "(string \<times> rat) list"
  | Pay_Summary "(string \<times> string \<times> string) list"
  | Profit_Chart "(string \<times> rat \<times> rat) list"
  | Customer_Chart "(string \<times> rat) list"
  | Transactions_Table
      "(datetime option \<times> string option \<times> string option \<times> string option \<times> string) list"

text \<open>Lines 80 to 236, from \<open>merged\<close> and the selection of the multiselect: the elements
  rendered, and the exception that ended the script, if one did. Streamlit keeps what
  was rendered before the exception.\<close>

definition dashboard ::
  "library \<Rightarrow> merged_row list \<Rightarrow> string list \<Rightarrow> element list \<times> error option" where
  "dashboard L m selected_staff =
     (let fm = filtered_merged selected_staff m;
          metrics =
            [Metric ''Total Sales (RRP)'' (format_currency (Some (total_sales fm))) None,
             Metric ''Transactions'' (show_int (total_transactions fm)) None]
      in case top_staff fm of
           Inl e \<Rightarrow> (metrics, Some e)
         | Inr name \<Rightarrow>
             (let upper =
                    metrics
                    @ [Metric ''Top Seller'' name (Some (format_currency (top_sales fm))),
                       Staff_Chart (sales_by_item fm),
                       Pay_Summary (staff_summary fm)]
              in case mapM (add_profit L) m of
                   Inl e \<Rightarrow> (upper, Some e)
                 | Inr pm \<Rightarrow>
                     (upper
                      @ [Profit_Chart (top_profit_items pm),
                         Customer_Chart (sales_by_customer fm),
                         Transactions_Table (display_df fm)],
                      None)))"

text \<open>The whole script after the three tables are loaded. The inputs of the sidebar are
  the two dates and the staff selection, \<open>None\<close> for the default selection (all the
  names of line 76).\<close>

definition run ::
  "library \<Rightarrow> string option transaction list \<Rightarrow> item list \<Rightarrow> staff_row list \<Rightarrow> date
     \<Rightarrow> date \<Rightarrow> string list option \<Rightarrow> element list \<times> error option" where
  "run L transactions items staff start_date end_date choice =
     (case to_datetime L transactions of
        Inl e \<Rightarrow> ([], Some e)
      | Inr txs \<Rightarrow>
          (case merged L start_date end_date txs items staff of
             Inl e \<Rightarrow> ([], Some e)
           | Inr m \<Rightarrow>
               dashboard L m (case choice of None \<Rightarrow> staff_names m | Some sel \<Rightarrow> sel)))"

subsection \<open>A library for the examples\<close>

text \<open>
  To run the script on tables, the three readers are instantiated for text of the
  plainest kind: signed decimals, and ISO timestamps in the layout of the column's first
  value (a value in another layout is not read, as in pandas 2). The instance is
  narrower than the libraries, which also read exponents, \<open>inf\<close>, \<open>nan\<close> and many
  other date layouts; it is used on the example tables only, whose text the libraries
  read to the same values, or reject as it does (\<open>TBC\<close>, \<open>N/A\<close>, \<open>pending\<close>,
  \<open>not a date\<close>). Nothing proved for every library depends on it.
\<close>

definition is_digit :: "char \<Rightarrow> bool" where
  "is_digit c = (c \<in> set ''0123456789'')"

definition digit_val :: "char \<Rightarrow> int" where
  "digit_val c = of_char c - 48"

definition int_of_digits :: "string \<Rightarrow> int" where
  "int_of_digits s = foldl (\<lambda>n c. 10 * n + digit_val c) 0 s"

definition is_space :: "char \<Rightarrow> bool" where
  "is_space c = (c \<in> set [CHR '' '', CHR 0x09, CHR 0x0A, CHR 0x0D])"

definition strip :: "string \<Rightarrow> string" where
  "strip s = rev (dropWhile is_space (rev (dropWhile is_space s)))"

text \<open>An unsigned decimal: digits, optionally a point and more digits, at least one
  digit in all.\<close>

definition decimal :: "string \<Rightarrow> rat option" where
  "decimal u =
     (let ip = takeWhile is_digit u; r = dropWhile is_digit u in
      case r of
        [] \<Rightarrow> if ip = [] then None else Some (of_int (int_of_digits ip))
      | c # fp \<Rightarrow>
          if c = CHR ''.'' \<and> list_all is_digit fp \<and> (ip \<noteq> [] \<or> fp \<noteq> [])
          then Some (of_int (int_of_digits (ip @ fp)) / 10 ^ length fp)
          else None)"

text \<open>A signed decimal with surrounding white space; \<open>None\<close> for any other text.\<close>

definition decimal_float :: "string \<Rightarrow> rat option" where
  "decimal_float s =
     (case strip s of
        [] \<Rightarrow> None
      | c # u \<Rightarrow>
          if c = CHR ''-'' then map_option uminus (decimal u)
          else if c = CHR ''+'' then decimal u
          else decimal (c # u))"

definition leap_year :: "int \<Rightarrow> bool" where
  "leap_year y = (y mod 4 = 0 \<and> (y mod 100 \<noteq> 0 \<or> y mod 400 = 0))"

definition days_in_month :: "int \<Rightarrow> int \<Rightarrow> int" where
  "days_in_month y m =
     (if m = 2 then (if leap_year y then 29 else 28)
      else if m = 4 \<or> m = 6 \<or> m = 9 \<or> m = 11 then 30 else 31)"

text \<open>\<open>YYYY-MM-DD\<close>, a date of the calendar.\<close>

definition parse_date :: "string \<Rightarrow> date option" where
  "parse_date s =
     (if length s = 10 \<and> s ! 4 = CHR ''-'' \<and> s ! 7 = CHR ''-''
         \<and> list_all is_digit (take 4 s @ take 2 (drop 5 s) @ drop 8 s)
      then
        (let y = int_of_digits (take 4 s);
             m = int_of_digits (take 2 (drop 5 s));
             d = int_of_digits (drop 8 s)
         in if 1 \<le> y \<and> 1 \<le> m \<and> m \<le> 12 \<and> 1 \<le> d \<and> d \<le> days_in_month y m
            then Some (y, m, d) else None)
      else None)"

text \<open>\<open>HH:MM:SS\<close>, a time of the day.\<close>

definition parse_time :: "string \<Rightarrow> (int \<times> int \<times> int) option" where
  "parse_time s =
     (if length s = 8 \<and> s ! 2 = CHR '':'' \<and> s ! 5 = CHR '':''
         \<and> list_all is_digit (take 2 s @ take 2 (drop 3 s) @ drop 6 s)
      then
        (let h = int_of_digits (take 2 s);
             mi = int_of_digits (take 2 (drop 3 s));
             se = int_of_digits (drop 6 s)
         in if h < 24 \<and> mi < 60 \<and> se < 60 then Some (h, mi, se) else None)
      else None)"

text \<open>\<open>YYYY-MM-DD\<close> (midnight) or \<open>YYYY-MM-DD HH:MM:SS\<close>; \<open>None\<close> for any other text.\<close>

definition parse_timestamp :: "string \<Rightarrow> datetime option" where
  "parse_timestamp s =
     (case parse_date (take 10 s) of
        None \<Rightarrow> None
      | Some (y, m, d) \<Rightarrow>
          if length s = 10
          then Some \<lparr>year = y, month = m, day = d, hour = 0, minute = 0, second = 0\<rparr>
          else if s ! 10 = CHR '' '' then
            (case parse_time (drop 11 s) of
               None \<Rightarrow> None
             | Some (h, mi, se) \<Rightarrow>
                 Some \<lparr>year = y, month = m, day = d, hour = h, minute = mi, second = se\<rparr>)
          else None)"

text \<open>One value of a column of ISO timestamps: the layout is that of the first value
  of the column.\<close>

definition iso_datetime :: "string option list \<Rightarrow> string \<Rightarrow> datetime option" where
  "iso_datetime col s =
     (case List.map_filter (\<lambda>v. v) col of
        [] \<Rightarrow> None
      | f # _ \<Rightarrow> if length s = length f then parse_timestamp s else None)"

definition plain :: library where
  "plain =
     \<lparr>float_of_text = (\<lambda>s. map_option Some (decimal_float s)),
      numeric_of_text = decimal_float,
      datetime_of_text = iso_datetime\<rparr>"

subsection \<open>Example tables\<close>

text \<open>Four transactions over three days: one with the amount \<open>N/A\<close>, one by a user who
  is not in the roster.\<close>

definition example_transactions :: "string option transaction list" where
  "example_transactions =
     [\<lparr>Timestamp = Some ''2024-01-01 00:00:00'', Food = Some ''Cod'', User = Some ''a@x.com'',
        Customer = Some ''Bob'', Amount = Num 2\<rparr>,
      \<lparr>Timestamp = Some ''2024-01-02 10:15:00'', Food = Some ''Cod'', User = Some ''b@x.com'',
        Customer = Some ''Dan'', Amount = Str ''N/A''\<rparr>,
      \<lparr>Timestamp = Some ''2024-01-03 23:59:59'', Food = Some ''Crab'', User = Some ''b@x.com'',
        Customer = Some ''Dan'', Amount = Num 3\<rparr>,
      \<lparr>Timestamp = Some ''2024-01-03 08:00:00'', Food = Some ''Cod'', User = Some ''z@x.com'',
        Customer = Some ''Eve'', Amount = Num 1\<rparr>]"

definition example_items :: "item list" where
  "example_items =
     [\<lparr>Item = Some ''Cod'', Material_Cost = Str ''$2.00'', RRP = Str ''$5.00'',
        Mates_Rates = Str ''$4.00''\<rparr>,
      \<lparr>Item = Some ''Crab'', Material_Cost = Str ''$7.50'', RRP = Str ''$12.00'',
        Mates_Rates = NaN\<rparr>]"

definition example_staff :: "staff_row list" where
  "example_staff =
     [\<lparr>Email = Some ''a@x.com'', Staff_Name = Some ''Alice''\<rparr>,
      \<lparr>Email = Some ''b@x.com'', Staff_Name = Some ''Carol''\<rparr>]"

text \<open>The example transactions after line 28.\<close>

definition example_parsed :: "datetime option transaction list" where
  "example_parsed =
     [\<lparr>Timestamp = Some \<lparr>year = 2024, month = 1, day = 1, hour = 0, minute = 0, second = 0\<rparr>,
        Food = Some ''Cod'', User = Some ''a@x.com'', Customer = Some ''Bob'',
        Amount = Num 2\<rparr>,
      \<lparr>Timestamp = Some \<lparr>year = 2024, month = 1, day = 2, hour = 10, minute = 15, second = 0\<rparr>,
        Food = Some ''Cod'', User = Some ''b@x.com'', Customer = Some ''Dan'',
        Amount = Str ''N/A''\<rparr>,
      \<lparr>Timestamp = Some \<lparr>year = 2024, month = 1, day = 3, hour = 23, minute = 59, second = 59\<rparr>,
        Food = Some ''Crab'', User = Some ''b@x.com'', Customer = Some ''Dan'',
        Amount = Num 3\<rparr>,
      \<lparr>Timestamp = Some \<lparr>year = 2024, month = 1, day = 3, hour = 8, minute = 0, second = 0\<rparr>,
        Food = Some ''Cod'', User = Some ''z@x.com'', Customer = Some ''Eve'',
        Amount = Num 1\<rparr>]"

text \<open>\<open>merged\<close> after line 71 for the example tables and the full date range.\<close>

definition example_merged :: "merged_row list" where
  "example_merged =
     [\<lparr>mTimestamp = Some \<lparr>year = 2024, month = 1, day = 1, hour = 0, minute = 0, second = 0\<rparr>,
        mFood = Some ''Cod'', mUser = Some ''a@x.com'', mCustomer = Some ''Bob'',
        mAmount = Some 2, mItem = Some ''Cod'', mMaterial_Cost = Str ''$2.00'',
        mRRP = Some 5, mMates_Rates = Str ''$4.00'', mEmail = Some ''a@x.com'',
        mStaff_Name = Some ''Alice'', Sales = Some 10\<rparr>,
      \<lparr>mTimestamp = Some \<lparr>year = 2024, month = 1, day = 2, hour = 10, minute = 15, second = 0\<rparr>,
        mFood = Some ''Cod'', mUser = Some ''b@x.com'', mCustomer = Some ''Dan'',
        mAmount = None, mItem = Some ''Cod'', mMaterial_Cost = Str ''$2.00'',
        mRRP = Some 5, mMates_Rates = Str ''$4.00'', mEmail = Some ''b@x.com'',
        mStaff_Name = Some ''Carol'', Sales = None\<rparr>,
      \<lparr>mTimestamp = Some \<lparr>year = 2024, month = 1, day = 3, hour = 23, minute = 59, second = 59\<rparr>,
        mFood = Some ''Crab'', mUser = Some ''b@x.com'', mCustomer = Some ''Dan'',
        mAmount = Some 3, mItem = Some ''Crab'', mMaterial_Cost = Str ''$7.50'',
        mRRP = Some 12, mMates_Rates = NaN, mEmail = Some ''b@x.com'',
        mStaff_Name = Some ''Carol'', Sales = Some 36\<rparr>,
      \<lparr>mTimestamp = Some \<lparr>year = 2024, month = 1, day = 3, hour = 8, minute = 0, second = 0\<rparr>,
        mFood = Some ''Cod'', mUser = Some ''z@x.com'', mCustomer = Some ''Eve'',
        mAmount = Some 1, mItem = Some ''Cod'', mMaterial_Cost = Str ''$2.00'',
        mRRP = Some 5, mMates_Rates = Str ''$4.00'', mEmail = None,
        mStaff_Name = None, Sales = Some 5\<rparr>]"

text \<open>The scenario of the specification: one sale of two cod by Alice to Bob.\<close>

definition scenario_transactions :: "string option transaction list" where
  "scenario_transactions =
     [\<lparr>Timestamp = Some ''2024-01-01'', Food = Some ''Cod'', User = Some ''a@x.com'',
        Customer = Some ''Bob'', Amount = Num 2\<rparr>]"

definition scenario_items :: "item list" where
  "scenario_items =
     [\<lparr>Item = Some ''Cod'', Material_Cost = Str ''$2.00'', RRP = Str ''$5.00'',
        Mates_Rates = NaN\<rparr>]"

definition scenario_staff :: "staff_row list" where
  "scenario_staff = [\<lparr>Email = Some ''a@x.com'', Staff_Name = Some ''Alice''\<rparr>]"

section \<open>Properties\<close>

subsection \<open>Sequencing\<close>

lemma mapM_Inr_all2: "mapM f xs = Inr ys \<Longrightarrow> list_all2 (\<lambda>x y. f x = Inr y) xs ys"
  by (induction xs arbitrary: ys) (auto split: sum.splits)

lemma mapM_Inr_set:
  "mapM f xs = Inr ys \<Longrightarrow> y \<in> set ys \<Longrightarrow> \<exists>x\<in>set xs. f x = Inr y"
  by (induction xs arbitrary: ys) (auto split: sum.splits)

lemma mapM_Inr_map: "mapM f xs = Inr ys \<Longrightarrow> map f xs = map Inr ys"
  by (induction xs arbitrary: ys) (auto split: sum.splits)

lemma mapM_map_Inr: "map f xs = map Inr ys \<Longrightarrow> mapM f xs = Inr ys"
  by (induction xs arbitrary: ys) (auto split: sum.splits)

lemma mapM_Inl_iff: "(\<exists>e. mapM f xs = Inl e) \<longleftrightarrow> (\<exists>x\<in>set xs. \<exists>e. f x = Inl e)"
  by (induction xs) (auto split: sum.splits)

lemma mapM_Inl_source: "mapM f xs = Inl e \<Longrightarrow> \<exists>x\<in>set xs. f x = Inl e"
  by (induction xs) (auto split: sum.splits)

subsection \<open>An empty staff selection\<close>

lemma filtered_merged_Nil: "filtered_merged [] m = []"
  by (simp add: filtered_merged_def isin_def split: option.split)

lemma format_currency_zero: "format_currency (Some 0) = ''$0.00''"
  by code_simp

lemma show_int_zero: "show_int 0 = ''0''"
  by code_simp

lemma top_staff_Nil: "top_staff [] = Inl ValueError_argmax"
  by (simp add: top_staff_def idxmax_def sort_values_desc_def groupby_sum_def group_keys_def)

lemma dashboard_empty_selection:
  "dashboard L m [] =
     ([Metric ''Total Sales (RRP)'' ''$0.00'' None, Metric ''Transactions'' ''0'' None],
      Some ValueError_argmax)"
  by (simp add: dashboard_def filtered_merged_Nil total_sales_def total_transactions_def
      top_staff_Nil format_currency_zero show_int_zero)

text \<open>
  C1. With nothing selected in the staff multiselect, whatever \<open>merged\<close> holds, the
  filtered table is empty and the script renders the Total Sales metric \<open>$0.00\<close> and
  the transaction count \<open>0\<close>; then \<open>idxmax\<close> on the empty series of line 113 raises
  \<open>ValueError\<close>. The Top Seller metric, the charts and the tables are never rendered. So
  it is for the one sale of the scenario, run from the loaded tables.
\<close>

theorem empty_selection_raises:
  "dashboard L m [] =
     ([Metric ''Total Sales (RRP)'' ''$0.00'' None, Metric ''Transactions'' ''0'' None],
      Some ValueError_argmax)
   \<and> run plain scenario_transactions scenario_items scenario_staff (2024, 1, 1) (2024, 1, 1)
       (Some [])
     = ([Metric ''Total Sales (RRP)'' ''$0.00'' None, Metric ''Transactions'' ''0'' None],
        Some ValueError_argmax)"
proof -
  have "run plain scenario_transactions scenario_items scenario_staff (2024, 1, 1) (2024, 1, 1)
       (Some [])
     = ([Metric ''Total Sales (RRP)'' ''$0.00'' None, Metric ''Transactions'' ''0'' None],
        Some ValueError_argmax)"
    by code_simp
  then show ?thesis
    by (simp add: dashboard_empty_selection)
qed

subsection \<open>The example tables through the pipeline\<close>

lemma example_to_datetime: "to_datetime plain example_transactions = Inr example_parsed"
  by code_simp

lemma example_merged_eq:
  "merged plain (2024, 1, 1) (2024, 1, 3) example_parsed example_items example_staff
     = Inr example_merged"
  by code_simp

subsection \<open>Rows of \<open>merged\<close>\<close>

lemma derive_row_fields:
  assumes "derive_row L x = Inr r"
  shows "mUser r = User (fst (fst x))" and "mStaff_Name r = Staff_Name (snd x)"
    and "mAmount r = to_numeric_coerce L (Amount (fst (fst x)))"
    and "clean_currency L (RRP (snd (fst x))) = Inr (mRRP r)"
    and "Sales r = fmul (mAmount r) (mRRP r)"
    and "mMaterial_Cost r = Material_Cost (snd (fst x))"
  using assms by (auto simp: derive_row_def Let_def split: sum.splits)

subsection \<open>Currency columns\<close>

lemma clean_currency_error: "clean_currency L c = Inl e \<Longrightarrow> e = ValueError_float"
  by (auto simp: clean_currency_def astype_float_def replace_currency_def
      split: cell.splits option.splits)

lemma derive_row_error: "derive_row L x = Inl e \<Longrightarrow> e = ValueError_float"
  by (auto simp: derive_row_def Let_def dest: clean_currency_error split: sum.splits)

lemma merged_error: "merged L a b txs items staff = Inl e \<Longrightarrow> e = ValueError_float"
  unfolding merged_def by (auto dest!: mapM_Inl_source derive_row_error)

lemma clean_currency_Str:
  "clean_currency L (Str s) =
     (case float_of_text L (strip_currency s) of
        None \<Rightarrow> Inl ValueError_float
      | Some v \<Rightarrow> Inr v)"
  by (simp add: clean_currency_def astype_float_def replace_currency_def)

lemma clean_currency_missing_iff:
  "clean_currency L c = Inr None
     \<longleftrightarrow> c = NaN \<or> (\<exists>s. c = Str s \<and> float_of_text L (strip_currency s) = Some None)"
  by (cases c) (auto simp: clean_currency_def astype_float_def replace_currency_def
      split: option.splits)

lemma total_sales_skips_missing:
  "total_sales fm = total_sales (filter (\<lambda>r. Sales r \<noteq> None) fm)"
  by (induction fm) (auto simp: total_sales_def)

lemma group_sum_skips_missing:
  "group_sum key val rows k = group_sum key val (filter (\<lambda>r. val r \<noteq> None) rows) k"
  unfolding group_sum_def by (induction rows) auto

lemma add_profit_fails:
  "mMaterial_Cost u = Str w \<Longrightarrow> float_of_text L (strip_currency w) = None
     \<Longrightarrow> add_profit L u = Inl ValueError_float"
  by (simp add: add_profit_def clean_currency_Str)

lemma add_profit_fields:
  assumes "add_profit L u = Inr p"
  shows "clean_currency L (mMaterial_Cost u) = Inr (pMaterial_Cost p)"
    and "Profit p = fmul (fsub (mRRP u) (pMaterial_Cost p)) (mAmount u)"
    and "pRow p = u"
  using assms by (auto simp: add_profit_def split: sum.splits)

lemma dashboard_material_cost:
  assumes "u \<in> set m" and "add_profit L u = Inl e"
  shows "snd (dashboard L m sel) \<noteq> None"
proof -
  from assms have "\<exists>e'. mapM (add_profit L) m = Inl e'"
    unfolding mapM_Inl_iff by blast
  then show ?thesis
    by (auto simp: dashboard_def Let_def split: sum.splits)
qed

text \<open>
  C2 (as amended). Whatever text \<open>float\<close> accepts: cleaning a price deletes every \<open>$\<close>
  and \<open>,\<close> and hands the rest to \<open>float\<close>. A price becomes missing only when its cell is
  empty or \<open>float\<close> itself reads its text as NaN; a missing price makes the \<open>Sales\<close> and
  the \<open>Profit\<close> of its row missing, and the sums skip such rows. Text on which \<open>float\<close>
  raises is not made missing: the \<open>ValueError\<close> is not caught. When it stands in the
  \<open>RRP\<close> of a joined row the script stops at line 65; when it stands in the
  \<open>Material Cost\<close> of a row of \<open>merged\<close> the page ends with an exception.
\<close>

theorem currency_parsing:
  assumes "x \<in> set (merge2 (merge1 (filtered_tx a b txs) items) staff)"
    and "RRP (snd (fst x)) = Str v"
    and "float_of_text L (strip_currency v) = None"
  shows "merged L a b txs items staff = Inl ValueError_float
    \<and> (\<forall>u\<in>set mt. \<forall>w. mMaterial_Cost u = Str w \<and> float_of_text L (strip_currency w) = None
          \<longrightarrow> snd (dashboard L mt sel) \<noteq> None)
    \<and> CHR ''$'' \<notin> set (strip_currency s) \<and> CHR '','' \<notin> set (strip_currency s)
    \<and> clean_currency L (Str s) =
        (case float_of_text L (strip_currency s) of
           None \<Rightarrow> Inl ValueError_float
         | Some y \<Rightarrow> Inr y)
    \<and> clean_currency L (Num n) = Inr (Some n)
    \<and> (clean_currency L c = Inr None
          \<longleftrightarrow> c = NaN \<or> (\<exists>t. c = Str t \<and> float_of_text L (strip_currency t) = Some None))
    \<and> (\<forall>r. derive_row L y = Inr r \<longrightarrow>
          clean_currency L (RRP (snd (fst y))) = Inr (mRRP r)
          \<and> (mRRP r = None \<longrightarrow> Sales r = None))
    \<and> (\<forall>p. add_profit L u' = Inr p \<longrightarrow>
          clean_currency L (mMaterial_Cost u') = Inr (pMaterial_Cost p)
          \<and> (mRRP u' = None \<or> pMaterial_Cost p = None \<longrightarrow> Profit p = None))
    \<and> total_sales fm = total_sales (filter (\<lambda>r. Sales r \<noteq> None) fm)
    \<and> group_sum key Profit pm k = group_sum key Profit (filter (\<lambda>p. Profit p \<noteq> None) pm) k"
proof -
  have "derive_row L x = Inl ValueError_float"
    using assms(2,3) by (simp add: derive_row_def Let_def clean_currency_Str)
  with assms(1) have "\<exists>e. merged L a b txs items staff = Inl e"
    unfolding merged_def mapM_Inl_iff by blast
  then have abort: "merged L a b txs items staff = Inl ValueError_float"
    using merged_error by blast
  have cost: "snd (dashboard L mt sel) \<noteq> None"
    if "u \<in> set mt" and "mMaterial_Cost u = Str w"
      and "float_of_text L (strip_currency w) = None" for u w
    using dashboard_material_cost [OF that(1) add_profit_fails [OF that(2,3)]] .
  have num: "clean_currency L (Num n) = Inr (Some n)"
    by (simp add: clean_currency_def astype_float_def replace_currency_def)
  have sales: "clean_currency L (RRP (snd (fst y))) = Inr (mRRP r)
      \<and> (mRRP r = None \<longrightarrow> Sales r = None)" if "derive_row L y = Inr r" for r
    using derive_row_fields(4,5) [OF that] by (simp add: fmul_def split: option.split)
  have profit: "clean_currency L (mMaterial_Cost u') = Inr (pMaterial_Cost p)
      \<and> (mRRP u' = None \<or> pMaterial_Cost p = None \<longrightarrow> Profit p = None)"
    if "add_profit L u' = Inr p" for p
    using add_profit_fields(1,2) [OF that]
    by (auto simp: fmul_def fsub_def split: option.split)
  have strip: "CHR ''$'' \<notin> set (strip_currency s)" "CHR '','' \<notin> set (strip_currency s)"
    by (simp_all add: strip_currency_def)
  show ?thesis
    using abort cost strip clean_currency_Str [of L s] num
      clean_currency_missing_iff [of L c] sales profit
      total_sales_skips_missing [of fm] group_sum_skips_missing [of key Profit pm k]
    by blast
qed

theorem currency_parsing_witness:
  "merged plain (2024, 1, 1) (2024, 1, 1)
     [\<lparr>Timestamp = Some \<lparr>year = 2024, month = 1, day = 1, hour = 9, minute = 30, second = 0\<rparr>,
       Food = Some ''Cod'', User = Some ''a@x.com'', Customer = Some ''Bob'', Amount = Num 2\<rparr>]
     [\<lparr>Item = Some ''Cod'', Material_Cost = Str ''$2.00'', RRP = Str ''TBC'', Mates_Rates = NaN\<rparr>]
     [\<lparr>Email = Some ''a@x.com'', Staff_Name = Some ''Alice''\<rparr>]
   = Inl ValueError_float
   \<and> clean_currency plain (Str ''$1,234.56'') = Inr (Some (123456 / 100))
   \<and> clean_currency plain NaN = Inr None
   \<and> (\<exists>r. derive_row plain
              ((\<lparr>Timestamp = None, Food = Some ''Eel'', User = Some ''a@x.com'',
                  Customer = Some ''Bob'', Amount = Num 2\<rparr>, null_item),
               \<lparr>Email = Some ''a@x.com'', Staff_Name = Some ''Alice''\<rparr>) = Inr r
          \<and> mRRP r = None \<and> Sales r = None)"
proof -
  let ?y = "((\<lparr>Timestamp = None, Food = Some ''Eel'', User = Some ''a@x.com'',
                  Customer = Some ''Bob'', Amount = Num 2\<rparr>, null_item),
               \<lparr>Email = Some ''a@x.com'', Staff_Name = Some ''Alice''\<rparr>)"
  let ?r = "\<lparr>mTimestamp = None, mFood = Some ''Eel'', mUser = Some ''a@x.com'',
        mCustomer = Some ''Bob'', mAmount = Some 2, mItem = None, mMaterial_Cost = NaN,
        mRRP = None, mMates_Rates = NaN, mEmail = Some ''a@x.com'',
        mStaff_Name = Some ''Alice'', Sales = None\<rparr>"
  have d: "derive_row plain ?y = Inr ?r"
    by code_simp
  let ?t = "\<lparr>Timestamp = Some \<lparr>year = 2024, month = 1, day = 1, hour = 9, minute = 30, second = 0\<rparr>,
       Food = Some ''Cod'', User = Some ''a@x.com'', Customer = Some ''Bob'', Amount = Num 2\<rparr>"
  let ?i = "\<lparr>Item = Some ''Cod'', Material_Cost = Str ''$2.00'', RRP = Str ''TBC'', Mates_Rates = NaN\<rparr>"
  let ?s = "\<lparr>Email = Some ''a@x.com'', Staff_Name = Some ''Alice''\<rparr>"
  have h1: "((?t, ?i), ?s) \<in> set (merge2 (merge1 (filtered_tx (2024, 1, 1) (2024, 1, 1) [?t]) [?i]) [?s])"
    by code_simp
  have h2: "RRP (snd (fst ((?t, ?i), ?s))) = Str ''TBC''"
    by simp
  have h3: "float_of_text plain (strip_currency ''TBC'') = None"
    by code_simp
  have "clean_currency plain (Str ''$1,234.56'') = Inr (Some (123456 / 100))"
    "clean_currency plain NaN = Inr None"
    by code_simp+
  moreover have "merged plain (2024, 1, 1) (2024, 1, 1) [?t] [?i] [?s] = Inl ValueError_float"
    using currency_parsing [OF h1 h2 h3] by (rule conjunct1)
  moreover have "mRRP ?r = None \<and> Sales ?r = None"
    using currency_parsing [OF h1 h2 h3, where y = ?y] d by simp
  ultimately show ?thesis
    using d by blast
qed

text \<open>No recovery to missing: an \<open>RRP\<close> of \<open>TBC\<close> ends the run with \<open>ValueError\<close>
  before anything is rendered.\<close>

theorem unparseable_price_counterexample:
  "run plain
     [\<lparr>Timestamp = Some ''2024-01-01'', Food = Some ''Cod'', User = Some ''a@x.com'',
       Customer = Some ''Bob'', Amount = Num 2\<rparr>]
     [\<lparr>Item = Some ''Cod'', Material_Cost = Str ''$2.00'', RRP = Str ''TBC'', Mates_Rates = NaN\<rparr>]
     [\<lparr>Email = Some ''a@x.com'', Staff_Name = Some ''Alice''\<rparr>]
     (2024, 1, 1) (2024, 1, 1) None
   = ([], Some ValueError_float)"
  by code_simp

subsection \<open>The date filter\<close>

text \<open>
  C7. The date filter keeps exactly the rows whose timestamp has a date \<open>d\<close> with
  \<open>start \<le> d \<le> end\<close>, in their order. The time of day plays no part, and both
  ends are included: a row dated on the day that is both start and end is kept. Dates
  are compared by year, then month, then day.
\<close>

theorem date_filter_inclusive:
  "filtered_tx a b txs =
     filter (\<lambda>r. \<exists>t. Timestamp r = Some t \<and> a \<le> date_of t \<and> date_of t \<le> b) txs
   \<and> mask a b (Some (t\<lparr>hour := h, minute := mi, second := se\<rparr>)) = mask a b (Some t)
   \<and> mask (date_of t) (date_of t) (Some t)
   \<and> date_of t = (year t, month t, day t)
   \<and> ((y, m, d) \<le> ((y', m', d') :: date)
        \<longleftrightarrow> y < y' \<or> y = y' \<and> (m < m' \<or> m = m' \<and> d \<le> d'))"
proof -
  have "mask a b ts \<longleftrightarrow> (\<exists>t. ts = Some t \<and> a \<le> date_of t \<and> date_of t \<le> b)" for ts
    by (cases ts) (simp_all add: mask_def)
  then have "filtered_tx a b txs =
     filter (\<lambda>r. \<exists>t. Timestamp r = Some t \<and> a \<le> date_of t \<and> date_of t \<le> b) txs"
    by (simp add: filtered_tx_def)
  moreover have "(y, m, d) \<le> ((y', m', d') :: date)
        \<longleftrightarrow> y < y' \<or> y = y' \<and> (m < m' \<or> m = m' \<and> d \<le> d')"
    by auto
  ultimately show ?thesis
    by (simp add: mask_def date_of_def)
qed

subsection \<open>The default staff selection\<close>

lemma set_unique: "set (unique xs) = set xs"
  by (simp add: unique_def)

lemma set_map_filter: "set (List.map_filter f xs) = {y. \<exists>x\<in>set xs. f x = Some y}"
  by (induction xs) (auto split: option.splits)

lemma set_staff_names: "set (staff_names m) = {n. \<exists>r\<in>set m. mStaff_Name r = Some n}"
  by (auto simp: staff_names_def set_unique set_map_filter)

lemma filtered_merged_default:
  "filtered_merged (staff_names m) m = filter (\<lambda>r. mStaff_Name r \<noteq> None) m"
  unfolding filtered_merged_def
  by (rule filter_cong) (auto simp: isin_def set_staff_names split: option.splits)

lemma merge_left_set:
  assumes "(l, r) \<in> set (merge_left lk rk null ls rs)"
  shows "l \<in> set ls \<and> (r \<in> set rs \<and> rk r = lk l \<or> r = null \<and> lk l \<notin> rk ` set rs)"
proof -
  from assms obtain l' where l': "l' \<in> set ls"
    and in_row: "(l, r) \<in> set (case filter (\<lambda>r. rk r = lk l') rs of
                                  [] \<Rightarrow> [(l', null)] | ms \<Rightarrow> map (Pair l') ms)"
    by (auto simp: merge_left_def)
  show ?thesis
  proof (cases "filter (\<lambda>r. rk r = lk l') rs")
    case Nil
    with in_row have "l = l'" "r = null" by auto
    moreover from Nil have "lk l' \<notin> rk ` set rs"
      by (auto simp: filter_empty_conv)
    ultimately show ?thesis using l' by simp
  next
    case (Cons m ms)
    with in_row have "l = l'" and "r \<in> set (filter (\<lambda>r. rk r = lk l') rs)"
      by auto
    then show ?thesis using l' by auto
  qed
qed

text \<open>
  C10. Under the default selection (every name of line 76) the staff filter keeps exactly
  the rows that have a staff name. A row whose \<open>User\<close> equals no \<open>Email\<close> of the roster
  has no staff name, so it is in none of the staff-filtered views, and neither the Total
  Sales metric nor the transaction count includes it.
\<close>

theorem default_selection_drops_unnamed:
  assumes "merged L a b txs items staff = Inr m"
  shows "filtered_merged (staff_names m) m = filter (\<lambda>r. mStaff_Name r \<noteq> None) m
    \<and> (\<forall>r\<in>set m. mUser r \<notin> Email ` set staff \<longrightarrow>
          mStaff_Name r = None \<and> r \<notin> set (filtered_merged (staff_names m) m))
    \<and> total_sales (filtered_merged (staff_names m) m)
        = total_sales (filter (\<lambda>r. mStaff_Name r \<noteq> None) m)
    \<and> total_transactions (filtered_merged (staff_names m) m)
        = int (length (filter (\<lambda>r. mStaff_Name r \<noteq> None) m))"
proof -
  have unmatched: "mStaff_Name r = None" if "r \<in> set m" and "mUser r \<notin> Email ` set staff" for r
  proof -
    from assms that(1) obtain x
      where x: "x \<in> set (merge2 (merge1 (filtered_tx a b txs) items) staff)"
        and r: "derive_row L x = Inr r"
      unfolding merged_def by (blast dest: mapM_Inr_set)
    obtain l s where [simp]: "x = (l, s)" by (cases x)
    from x have "s \<in> set staff \<and> Email s = User (fst l) \<or> s = null_staff"
      unfolding merge2_def by (auto dest: merge_left_set)
    moreover from r that(2) have "User (fst l) \<notin> Email ` set staff"
      by (simp add: derive_row_fields(1))
    ultimately have "s = null_staff" by force
    with r show ?thesis
      by (simp add: derive_row_fields(2) null_staff_def)
  qed
  show ?thesis
    using unmatched by (simp add: filtered_merged_default total_transactions_def)
qed

theorem default_selection_witness:
  "map mUser (filtered_merged (staff_names example_merged) example_merged)
     = [Some ''a@x.com'', Some ''b@x.com'', Some ''b@x.com'']
   \<and> total_transactions (filtered_merged (staff_names example_merged) example_merged) = 3
   \<and> total_sales (filtered_merged (staff_names example_merged) example_merged) = 46"
  using default_selection_drops_unnamed [OF example_merged_eq]
  by (simp add: example_merged_def total_sales_def total_transactions_def)

subsection \<open>Total sales\<close>

lemma total_sales_present:
  "total_sales fm = (\<Sum>r\<leftarrow>filter (\<lambda>r. Sales r \<noteq> None) fm. the (Sales r))"
  by (simp add: total_sales_def List.map_filter_def comp_def)

lemma merged_rows_Sales:
  assumes "merged L a b txs items staff = Inr m" and "r \<in> set m"
  shows "Sales r = fmul (mAmount r) (mRRP r)"
proof -
  from assms obtain x where "derive_row L x = Inr r"
    unfolding merged_def by (blast dest: mapM_Inr_set)
  then show ?thesis by (rule derive_row_fields(5))
qed

lemma run_first_metric:
  assumes "to_datetime L transactions = Inr txs" and "merged L a b txs items staff = Inr m"
  shows "\<exists>rest err. run L transactions items staff a b choice =
           (Metric ''Total Sales (RRP)''
              (format_currency (Some (total_sales
                 (filtered_merged (case choice of None \<Rightarrow> staff_names m | Some sel \<Rightarrow> sel) m))))
              None # rest, err)"
  using assms by (auto simp: run_def dashboard_def Let_def split: sum.splits)

text \<open>
  C4. The first element the script renders is the Total Sales metric, and its value is
  the sum of \<open>Sales\<close> over the rows of the filtered, joined table that have one. A row
  whose \<open>Amount\<close> was coerced to missing (as the text \<open>N/A\<close> is) has no \<open>Sales\<close>; it is
  left out of the sum, and summing raises nothing.
\<close>

theorem total_sales_metric:
  assumes "to_datetime L transactions = Inr txs"
    and "merged L a b txs items staff = Inr m"
    and "fm = filtered_merged (case choice of None \<Rightarrow> staff_names m | Some sel \<Rightarrow> sel) m"
  shows "(\<exists>rest err. run L transactions items staff a b choice =
            (Metric ''Total Sales (RRP)'' (format_currency (Some (total_sales fm))) None # rest,
             err))
    \<and> total_sales fm = (\<Sum>r\<leftarrow>filter (\<lambda>r. Sales r \<noteq> None) fm. the (Sales r))
    \<and> (\<forall>r\<in>set m. mAmount r = None \<longrightarrow> Sales r = None)
    \<and> to_numeric_coerce plain (Str ''N/A'') = None"
proof -
  have "Sales r = None" if "r \<in> set m" and "mAmount r = None" for r
    using merged_rows_Sales [OF assms(2) that(1)] that(2) by (simp add: fmul_def)
  moreover have "to_numeric_coerce plain (Str ''N/A'') = None"
    by code_simp
  ultimately show ?thesis
    using run_first_metric [OF assms(1,2)] total_sales_present assms(3) by blast
qed

theorem total_sales_metric_witness:
  "(\<exists>rest err.
      run plain example_transactions example_items example_staff (2024, 1, 1) (2024, 1, 3) None
        = (Metric ''Total Sales (RRP)'' ''$46.00'' None # rest, err))
   \<and> map Sales (filtered_merged (staff_names example_merged) example_merged)
       = [Some 10, None, Some 36]"
proof -
  have rows: "map Sales (filtered_merged (staff_names example_merged) example_merged)
       = [Some 10, None, Some 36]"
    by code_simp
  have total: "total_sales (filtered_merged (staff_names example_merged) example_merged) = 46"
    by code_simp
  have shown: "format_currency (Some 46) = ''$46.00''"
    by code_simp
  show ?thesis
    using total_sales_metric [OF example_to_datetime example_merged_eq refl, of None]
    by (simp add: rows total shown)
qed

subsection \<open>Sales and profit of a row\<close>

text \<open>
  C5. In a row with an amount \<open>q\<close>, a price \<open>rrp\<close> and a material cost \<open>mc\<close>, none of
  them missing, \<open>Sales = q * rrp\<close> and \<open>Profit = (rrp - mc) * q\<close>, the three numbers being
  the converted \<open>Amount\<close>, \<open>RRP\<close> and \<open>Material Cost\<close> of the joined row. An instance is
  the scenario: two cod at \<open>$5.00\<close>, cost \<open>$2.00\<close>, sold by Alice, give \<open>Sales = 10\<close>,
  \<open>Profit = 6\<close> and the Top Seller Alice with \<open>$10.00\<close>.
\<close>

theorem sales_and_profit:
  assumes "derive_row L x = Inr r" and "add_profit L r = Inr p"
    and "mAmount r = Some q" and "mRRP r = Some rrp" and "pMaterial_Cost p = Some mc"
  shows "Sales r = Some (q * rrp) \<and> Profit p = Some ((rrp - mc) * q)
    \<and> to_numeric_coerce L (Amount (fst (fst x))) = Some q
    \<and> clean_currency L (RRP (snd (fst x))) = Inr (Some rrp)
    \<and> clean_currency L (Material_Cost (snd (fst x))) = Inr (Some mc)"
proof -
  from assms(2) have p: "clean_currency L (mMaterial_Cost r) = Inr (pMaterial_Cost p)"
    "Profit p = fmul (fsub (mRRP r) (pMaterial_Cost p)) (mAmount r)"
    by (auto simp: add_profit_def split: sum.splits)
  note f = derive_row_fields [OF assms(1)]
  have "Sales r = Some (q * rrp)"
    using f(5) assms(3,4) by (simp add: fmul_def)
  moreover have "Profit p = Some ((rrp - mc) * q)"
    using p(2) assms(3-5) by (simp add: fmul_def fsub_def)
  moreover have "to_numeric_coerce L (Amount (fst (fst x))) = Some q"
    using f(3) assms(3) by simp
  moreover have "clean_currency L (RRP (snd (fst x))) = Inr (Some rrp)"
    using f(4) assms(4) by simp
  moreover have "clean_currency L (Material_Cost (snd (fst x))) = Inr (Some mc)"
    using p(1) f(6) assms(5) by simp
  ultimately show ?thesis by simp
qed

theorem sales_and_profit_witness:
  "run plain scenario_transactions scenario_items scenario_staff (2024, 1, 1) (2024, 1, 1) None
     = ([Metric ''Total Sales (RRP)'' ''$10.00'' None,
         Metric ''Transactions'' ''1'' None,
         Metric ''Top Seller'' ''Alice'' (Some ''$10.00''),
         Staff_Chart [(''Alice'', 10)],
         Pay_Summary [(''Alice'', ''$10.00'', ''$3.00'')],
         Profit_Chart [(''Cod'', 6, 2)],
         Customer_Chart [(''Bob'', 10)],
         Transactions_Table
           [(Some \<lparr>year = 2024, month = 1, day = 1, hour = 0, minute = 0, second = 0\<rparr>,
             Some ''Alice'', Some ''Cod'', Some ''Bob'', ''$10.00'')]],
        None)
   \<and> (\<exists>r p. merged plain (2024, 1, 1) (2024, 1, 1)
               [\<lparr>Timestamp = Some \<lparr>year = 2024, month = 1, day = 1, hour = 0, minute = 0, second = 0\<rparr>,
                  Food = Some ''Cod'', User = Some ''a@x.com'', Customer = Some ''Bob'',
                  Amount = Num 2\<rparr>]
               scenario_items scenario_staff = Inr [r]
            \<and> add_profit plain r = Inr p \<and> Sales r = Some 10 \<and> Profit p = Some 6)"
proof -
  let ?t = "\<lparr>Timestamp = Some \<lparr>year = 2024, month = 1, day = 1, hour = 0, minute = 0, second = 0\<rparr>,
              Food = Some ''Cod'', User = Some ''a@x.com'', Customer = Some ''Bob'',
              Amount = Num 2\<rparr>"
  let ?x = "((?t, hd scenario_items), hd scenario_staff)"
  let ?r = "\<lparr>mTimestamp = Some \<lparr>year = 2024, month = 1, day = 1, hour = 0, minute = 0, second = 0\<rparr>,
        mFood = Some ''Cod'', mUser = Some ''a@x.com'', mCustomer = Some ''Bob'',
        mAmount = Some 2, mItem = Some ''Cod'', mMaterial_Cost = Str ''$2.00'',
        mRRP = Some 5, mMates_Rates = NaN, mEmail = Some ''a@x.com'',
        mStaff_Name = Some ''Alice'', Sales = Some 10\<rparr>"
  let ?p = "\<lparr>pRow = ?r, pMaterial_Cost = Some 2, Profit = Some 6\<rparr>"
  have page: "run plain scenario_transactions scenario_items scenario_staff (2024, 1, 1) (2024, 1, 1) None
     = ([Metric ''Total Sales (RRP)'' ''$10.00'' None,
         Metric ''Transactions'' ''1'' None,
         Metric ''Top Seller'' ''Alice'' (Some ''$10.00''),
         Staff_Chart [(''Alice'', 10)],
         Pay_Summary [(''Alice'', ''$10.00'', ''$3.00'')],
         Profit_Chart [(''Cod'', 6, 2)],
         Customer_Chart [(''Bob'', 10)],
         Transactions_Table
           [(Some \<lparr>year = 2024, month = 1, day = 1, hour = 0, minute = 0, second = 0\<rparr>,
             Some ''Alice'', Some ''Cod'', Some ''Bob'', ''$10.00'')]],
        None)"
    by code_simp
  have m: "merged plain (2024, 1, 1) (2024, 1, 1) [?t] scenario_items scenario_staff = Inr [?r]"
    by code_simp
  have d: "derive_row plain ?x = Inr ?r"
    by code_simp
  have a: "add_profit plain ?r = Inr ?p"
    by code_simp
  have "Sales ?r = Some (2 * 5) \<and> Profit ?p = Some ((5 - 2) * 2)"
    using sales_and_profit [OF d a, of 2 5 2] by simp
  then have "Sales ?r = Some 10 \<and> Profit ?p = Some 6"
    by simp
  with m a have "\<exists>r p. merged plain (2024, 1, 1) (2024, 1, 1) [?t] scenario_items scenario_staff = Inr [r]
            \<and> add_profit plain r = Inr p \<and> Sales r = Some 10 \<and> Profit p = Some 6"
    by blast
  with page show ?thesis by blast
qed

subsection \<open>Timestamps\<close>

lemma to_datetime_error: "to_datetime L txs = Inl e \<Longrightarrow> e = DateParseError"
  unfolding to_datetime_def
  by (auto dest!: mapM_Inl_source
      simp: to_datetime_row_def to_datetime_value_def split: sum.splits option.splits)

lemma to_datetime_all_read:
  assumes "\<forall>r\<in>set txs. \<forall>s. Timestamp r = Some s
             \<longrightarrow> datetime_of_text L (map Timestamp txs) s \<noteq> None"
  shows "\<exists>parsed. to_datetime L txs = Inr parsed \<and> length parsed = length txs"
proof -
  have "\<not> (\<exists>e. to_datetime L txs = Inl e)"
    unfolding to_datetime_def mapM_Inl_iff using assms
    by (auto simp: to_datetime_row_def to_datetime_value_def split: option.splits sum.splits)
  then obtain parsed where "to_datetime L txs = Inr parsed"
    by (cases "to_datetime L txs") auto
  moreover from this have "length txs = length parsed"
    unfolding to_datetime_def by (blast dest: mapM_Inr_all2 list_all2_lengthD)
  ultimately show ?thesis by simp
qed

text \<open>
  C8 (as amended). \<open>pd.to_datetime\<close> is called with its default \<open>errors="raise"\<close>, on the
  whole column. Whatever layouts pandas recognises: one timestamp that it does not
  recognise makes the call raise, the exception is not caught, and the script ends
  before it renders anything, whatever the other rows hold. An empty cell is the only
  value that is recovered, as NaT. When every text value is recognised the call returns
  a row for every row.
\<close>

theorem unparseable_timestamp_aborts:
  assumes "r \<in> set transactions" and "Timestamp r = Some s"
    and "datetime_of_text L (map Timestamp transactions) s = None"
  shows "to_datetime L transactions = Inl DateParseError
    \<and> run L transactions items staff a b choice = ([], Some DateParseError)
    \<and> to_datetime_value L col None = Inr None
    \<and> ((\<forall>r\<in>set txs. \<forall>s. Timestamp r = Some s
            \<longrightarrow> datetime_of_text L (map Timestamp txs) s \<noteq> None)
         \<longrightarrow> (\<exists>parsed. to_datetime L txs = Inr parsed \<and> length parsed = length txs))"
proof -
  from assms(2,3)
  have "to_datetime_row L (map Timestamp transactions) r = Inl DateParseError"
    by (simp add: to_datetime_row_def to_datetime_value_def)
  with assms(1) have "\<exists>e. to_datetime L transactions = Inl e"
    unfolding to_datetime_def mapM_Inl_iff by blast
  then have "to_datetime L transactions = Inl DateParseError"
    using to_datetime_error by blast
  then show ?thesis
    using to_datetime_all_read [of txs L]
    by (simp add: run_def to_datetime_value_def)
qed

theorem unparseable_timestamp_witness:
  "run plain
     (example_transactions
        @ [\<lparr>Timestamp = Some ''pending'', Food = Some ''Cod'', User = Some ''a@x.com'',
             Customer = Some ''Bob'', Amount = Num 1\<rparr>])
     example_items example_staff (2024, 1, 1) (2024, 1, 3) None
     = ([], Some DateParseError)"
proof -
  let ?bad = "\<lparr>Timestamp = Some ''pending'', Food = Some ''Cod'', User = Some ''a@x.com'',
              Customer = Some ''Bob'', Amount = Num 1\<rparr>"
  have h1: "?bad \<in> set (example_transactions @ [?bad])" by simp
  have h2: "Timestamp ?bad = Some ''pending''" by simp
  have h3: "datetime_of_text plain (map Timestamp (example_transactions @ [?bad])) ''pending''
      = None"
    by code_simp
  show ?thesis
    using unparseable_timestamp_aborts [OF h1 h2 h3] by simp
qed

text \<open>No recovery per value: a good row does not survive a bad one.\<close>

theorem timestamp_recovery_counterexample:
  "run plain
     [\<lparr>Timestamp = Some ''2024-01-01'', Food = Some ''Cod'', User = Some ''a@x.com'',
        Customer = Some ''Bob'', Amount = Num 2\<rparr>,
      \<lparr>Timestamp = Some ''not a date'', Food = Some ''Cod'', User = Some ''a@x.com'',
        Customer = Some ''Bob'', Amount = Num 1\<rparr>]
     scenario_items scenario_staff (2024, 1, 1) (2024, 1, 1) None
     = ([], Some DateParseError)"
  by code_simp

subsection \<open>Narrowing the date range\<close>

lemma subseq_concat_map:
  "subseq xs ys \<Longrightarrow> subseq (concat (map f xs)) (concat (map f ys))"
proof (induction rule: list_emb.induct)
  case (list_emb_Nil ys)
  show ?case by simp
next
  case (list_emb_Cons xs ys y)
  then show ?case by (simp add: subseq_drop_many)
next
  case (list_emb_Cons2 x y xs ys)
  then show ?case by (simp add: subseq_append')
qed

lemma merge_left_subseq:
  "subseq ls ls' \<Longrightarrow> subseq (merge_left lk rk null ls rs) (merge_left lk rk null ls' rs)"
  unfolding merge_left_def by (rule subseq_concat_map)

lemma mapM_subseq:
  "subseq xs ys \<Longrightarrow> mapM f ys = Inr ys' \<Longrightarrow> \<exists>xs'. mapM f xs = Inr xs' \<and> subseq xs' ys'"
proof (induction arbitrary: ys' rule: list_emb.induct)
  case (list_emb_Nil ys)
  then show ?case by simp
next
  case (list_emb_Cons xs ys y)
  from list_emb_Cons.prems obtain z zs where "ys' = z # zs" and "mapM f ys = Inr zs"
    by (auto split: sum.splits)
  with list_emb_Cons.IH [of zs] show ?case by auto
next
  case (list_emb_Cons2 x y xs ys)
  from list_emb_Cons2.prems obtain z zs
    where "ys' = z # zs" and "f y = Inr z" and "mapM f ys = Inr zs"
    by (auto split: sum.splits)
  with list_emb_Cons2.IH [of zs] list_emb_Cons2.hyps(1) show ?case by auto
qed

lemma date_of_mono: "ts_key s \<le> ts_key t \<Longrightarrow> date_of s \<le> date_of t"
  by (auto simp: ts_key_def date_of_def)

lemma fold_earlier_le:
  "ts_key (fold earlier ts t) \<le> ts_key t \<and> (\<forall>y\<in>set ts. ts_key (fold earlier ts t) \<le> ts_key y)"
proof (induction ts arbitrary: t)
  case Nil
  show ?case by simp
next
  case (Cons x ts)
  have "ts_key (earlier x t) \<le> ts_key x" "ts_key (earlier x t) \<le> ts_key t"
    by (auto simp: earlier_def)
  with Cons [of "earlier x t"] show ?case
    by (auto intro: order_trans)
qed

lemma fold_later_ge:
  "ts_key t \<le> ts_key (fold later ts t) \<and> (\<forall>y\<in>set ts. ts_key y \<le> ts_key (fold later ts t))"
proof (induction ts arbitrary: t)
  case Nil
  show ?case by simp
next
  case (Cons x ts)
  have "ts_key x \<le> ts_key (later x t)" "ts_key t \<le> ts_key (later x t)"
    by (auto simp: later_def)
  with Cons [of "later x t"] show ?case
    by (auto intro: order_trans)
qed

lemma min_date_le:
  assumes "min_date txs = Some lo" and "r \<in> set txs" and "Timestamp r = Some t"
  shows "lo \<le> date_of t"
proof -
  from assms(2,3) have t: "t \<in> set (List.map_filter Timestamp txs)"
    by (auto simp: set_map_filter)
  from assms(1) obtain u us where us: "List.map_filter Timestamp txs = u # us"
    and lo: "lo = date_of (fold earlier us u)"
    by (auto simp: min_date_def split: list.splits)
  from t us fold_earlier_le [of us u] have "ts_key (fold earlier us u) \<le> ts_key t"
    by auto
  with lo show ?thesis by (simp add: date_of_mono)
qed

lemma max_date_ge:
  assumes "max_date txs = Some hi" and "r \<in> set txs" and "Timestamp r = Some t"
  shows "date_of t \<le> hi"
proof -
  from assms(2,3) have t: "t \<in> set (List.map_filter Timestamp txs)"
    by (auto simp: set_map_filter)
  from assms(1) obtain u us where us: "List.map_filter Timestamp txs = u # us"
    and hi: "hi = date_of (fold later us u)"
    by (auto simp: max_date_def split: list.splits)
  from t us fold_later_ge [of u us] have "ts_key t \<le> ts_key (fold later us u)"
    by auto
  with hi show ?thesis by (simp add: date_of_mono)
qed

lemma filtered_tx_narrow:
  assumes "min_date txs = Some lo" and "max_date txs = Some hi"
  shows "filtered_tx a b txs = filter (\<lambda>r. mask a b (Timestamp r)) (filtered_tx lo hi txs)"
proof -
  have "mask lo hi (Timestamp r)" if "r \<in> set txs" and "mask a b (Timestamp r)" for r
    using that min_date_le [OF assms(1) that(1)] max_date_ge [OF assms(2) that(1)]
    by (auto simp: mask_def split: option.splits)
  then show ?thesis
    unfolding filtered_tx_def filter_filter by (auto intro: filter_cong)
qed

text \<open>
  C9. Let \<open>lo\<close> and \<open>hi\<close> be the dates of the earliest and the latest timestamp. For any
  range \<open>[a, b]\<close>, the rows that the date filter and the two left joins give for
  \<open>[a, b]\<close> are a subsequence of the rows they give for the full range \<open>[lo, hi]\<close>: the
  same rows in the same order, some left out. The same holds after the price columns
  are converted, when that succeeds on the full range. The hypothesis \<open>a \<le> b\<close> is not
  needed.
\<close>

theorem date_range_narrowing:
  assumes "min_date txs = Some lo" and "max_date txs = Some hi"
  shows "subseq (merge2 (merge1 (filtered_tx a b txs) items) staff)
           (merge2 (merge1 (filtered_tx lo hi txs) items) staff)
    \<and> (\<forall>full. merged L lo hi txs items staff = Inr full \<longrightarrow>
          (\<exists>part. merged L a b txs items staff = Inr part \<and> subseq part full))"
proof -
  have "subseq (filtered_tx a b txs) (filtered_tx lo hi txs)"
    by (subst filtered_tx_narrow [OF assms]) simp
  then have joined: "subseq (merge2 (merge1 (filtered_tx a b txs) items) staff)
           (merge2 (merge1 (filtered_tx lo hi txs) items) staff)"
    unfolding merge1_def merge2_def by (intro merge_left_subseq)
  then show ?thesis
    unfolding merged_def by (blast dest: mapM_subseq)
qed

lemma example_dates:
  "min_date example_parsed = Some (2024, 1, 1)" "max_date example_parsed = Some (2024, 1, 3)"
  by code_simp+

theorem date_range_narrowing_witness:
  "subseq (merge2 (merge1 (filtered_tx (2024, 1, 2) (2024, 1, 3) example_parsed) example_items)
             example_staff)
          (merge2 (merge1 (filtered_tx (2024, 1, 1) (2024, 1, 3) example_parsed) example_items)
             example_staff)
   \<and> length (filtered_tx (2024, 1, 2) (2024, 1, 3) example_parsed) = 3
   \<and> length (filtered_tx (2024, 1, 1) (2024, 1, 3) example_parsed) = 4"
proof -
  have "length (filtered_tx (2024, 1, 2) (2024, 1, 3) example_parsed) = 3"
    "length (filtered_tx (2024, 1, 1) (2024, 1, 3) example_parsed) = 4"
    by code_simp+
  then show ?thesis
    using date_range_narrowing [OF example_dates, of "(2024, 1, 2)" "(2024, 1, 3)"
        example_items example_staff]
    by simp
qed

subsection \<open>The top seller\<close>

lemma set_group_keys: "set (group_keys key rows) = {k. \<exists>r\<in>set rows. key r = Some k}"
  by (simp add: group_keys_def set_map_filter)

lemma set_groupby_sum:
  "set (groupby_sum key val rows)
     = {(k, group_sum key val rows k) | k. \<exists>r\<in>set rows. key r = Some k}"
  by (auto simp: groupby_sum_def set_group_keys)

lemma set_sort_values_desc: "set (sort_values_desc f xs) = set xs"
  by (simp add: sort_values_desc_def)

lemma foldl_best:
  fixes x :: "string \<times> rat"
  shows "foldl (\<lambda>best y. if snd best < snd y then y else best) x ys \<in> set (x # ys)
   \<and> (\<forall>y\<in>set (x # ys).
         snd y \<le> snd (foldl (\<lambda>best y. if snd best < snd y then y else best) x ys))"
proof (induction ys arbitrary: x)
  case Nil
  show ?case by simp
next
  case (Cons y ys)
  show ?case
    using Cons [of "if snd x < snd y then y else x"]
    by (auto split: if_splits intro: order_trans less_imp_le)
qed

lemma idxmax_greatest:
  fixes xs :: "(string \<times> rat) list"
  assumes "xs \<noteq> []"
  shows "\<exists>n v. idxmax xs = Inr n \<and> (n, v) \<in> set xs \<and> (\<forall>y\<in>set xs. snd y \<le> v)"
proof -
  from assms obtain x ys where xs: "xs = x # ys" by (cases xs) auto
  let ?b = "foldl (\<lambda>best y. if snd best < snd y then y else best) x ys"
  have "idxmax xs = Inr (fst ?b)" by (simp add: idxmax_def xs)
  moreover have "(fst ?b, snd ?b) \<in> set xs" "\<forall>y\<in>set xs. snd y \<le> snd ?b"
    using foldl_best [of x ys] by (simp_all add: xs)
  ultimately show ?thesis by blast
qed

lemma foldl_max:
  fixes a :: rat
  shows "foldl max a bs \<in> set (a # bs) \<and> (\<forall>b\<in>set (a # bs). b \<le> foldl max a bs)"
proof (induction bs arbitrary: a)
  case Nil
  show ?case by simp
next
  case (Cons b bs)
  show ?case
    using Cons [of "max a b"] by (auto simp: max_def split: if_splits)
qed

lemma series_max_greatest:
  assumes "xs \<noteq> []"
  shows "\<exists>v. series_max xs = Some v \<and> v \<in> snd ` set xs \<and> (\<forall>y\<in>set xs. snd y \<le> v)"
proof -
  from assms obtain x ys where xs: "xs = x # ys" by (cases xs) auto
  have "series_max xs = Some (foldl max (snd x) (map snd ys))"
    by (simp add: series_max_def xs)
  moreover have "foldl max (snd x) (map snd ys) \<in> snd ` set xs"
    "\<forall>y\<in>set xs. snd y \<le> foldl max (snd x) (map snd ys)"
    using foldl_max [of "snd x" "map snd ys"] by (auto simp: xs)
  ultimately show ?thesis by blast
qed

lemma filtered_merged_named:
  "r \<in> set (filtered_merged sel m) \<Longrightarrow> \<exists>n. mStaff_Name r = Some n"
  by (auto simp: filtered_merged_def isin_def split: option.splits)

text \<open>
  C6. When the filtered table has a row, \<open>idxmax\<close> does not raise, the name reported as
  Top Seller is a staff name of the filtered table, the amount reported with it is its
  summed \<open>Sales\<close>, and no staff name of the filtered table has a larger sum. That name
  and that amount are what the third metric of the page shows.
\<close>

theorem top_seller_is_maximal:
  assumes "fm = filtered_merged sel m" and "fm \<noteq> []"
  shows "\<exists>n. top_staff fm = Inr n
    \<and> (\<exists>r\<in>set fm. mStaff_Name r = Some n)
    \<and> top_sales fm = Some (group_sum mStaff_Name Sales fm n)
    \<and> (\<forall>r\<in>set fm. \<forall>n'. mStaff_Name r = Some n' \<longrightarrow>
          group_sum mStaff_Name Sales fm n' \<le> group_sum mStaff_Name Sales fm n)
    \<and> (\<exists>total count rest err.
          dashboard L m sel =
            (total # count
               # Metric ''Top Seller'' n
                   (Some (format_currency (Some (group_sum mStaff_Name Sales fm n))))
               # rest, err))"
proof -
  let ?gs = "groupby_sum mStaff_Name Sales fm"
  from assms(2) obtain r0 where "r0 \<in> set fm"
    by (cases fm) auto
  moreover from this assms(1) obtain n0 where "mStaff_Name r0 = Some n0"
    by (auto dest: filtered_merged_named)
  ultimately have "(n0, group_sum mStaff_Name Sales fm n0) \<in> set ?gs"
    by (auto simp: set_groupby_sum)
  then have nonempty: "?gs \<noteq> []"
    by auto
  then have "set (sort_values_desc snd ?gs) \<noteq> {}"
    by (simp add: set_sort_values_desc)
  then have "sort_values_desc snd ?gs \<noteq> []"
    by auto
  from idxmax_greatest [OF this] obtain n v
    where n: "top_staff fm = Inr n" and nv: "(n, v) \<in> set ?gs"
      and best: "\<forall>y\<in>set ?gs. snd y \<le> v"
    by (auto simp: top_staff_def set_sort_values_desc)
  from nv have v: "v = group_sum mStaff_Name Sales fm n"
    and present: "\<exists>r\<in>set fm. mStaff_Name r = Some n"
    by (auto simp: set_groupby_sum)
  from series_max_greatest [OF nonempty] obtain w
    where w: "top_sales fm = Some w" and win: "w \<in> snd ` set ?gs"
      and wbest: "\<forall>y\<in>set ?gs. snd y \<le> w"
    by (auto simp: top_sales_def)
  from win best have "w \<le> v" by auto
  moreover from nv wbest have "v \<le> w" by force
  ultimately have "w = v" by simp
  moreover have "group_sum mStaff_Name Sales fm n' \<le> v"
    if "r \<in> set fm" and "mStaff_Name r = Some n'" for r n'
  proof -
    from that have "(n', group_sum mStaff_Name Sales fm n') \<in> set ?gs"
      by (auto simp: set_groupby_sum)
    with best show ?thesis by force
  qed
  moreover have "\<exists>total count rest err.
      dashboard L m sel =
        (total # count # Metric ''Top Seller'' n (Some (format_currency (Some v))) # rest, err)"
    using n w \<open>w = v\<close> assms(1)
    by (auto simp: dashboard_def Let_def split: sum.splits)
  ultimately show ?thesis
    using n present w v by blast
qed

theorem top_seller_witness:
  "top_staff (filtered_merged [''Alice'', ''Carol''] example_merged) = Inr ''Carol''
   \<and> top_sales (filtered_merged [''Alice'', ''Carol''] example_merged) = Some 36
   \<and> groupby_sum mStaff_Name Sales (filtered_merged [''Alice'', ''Carol''] example_merged)
       = [(''Alice'', 10), (''Carol'', 36)]"
proof -
  have ne: "filtered_merged [''Alice'', ''Carol''] example_merged \<noteq> []"
    by code_simp
  have ev: "top_staff (filtered_merged [''Alice'', ''Carol''] example_merged) = Inr ''Carol''"
    "groupby_sum mStaff_Name Sales (filtered_merged [''Alice'', ''Carol''] example_merged)
       = [(''Alice'', 10), (''Carol'', 36)]"
    "group_sum mStaff_Name Sales (filtered_merged [''Alice'', ''Carol''] example_merged) ''Carol''
       = 36"
    by code_simp+
  from top_seller_is_maximal [OF refl ne] ev show ?thesis
    by auto
qed

subsection \<open>The profit chart\<close>

lemma sort_values_desc_sorted: "sorted (rev (map f (sort_values_desc f xs)))"
  by (simp add: sort_values_desc_def rev_map)

lemma sales_by_customer_top_10:
  "length (sales_by_customer fm) \<le> 10 \<and> sorted (rev (map snd (sales_by_customer fm)))"
proof -
  have "sorted (rev (map snd (sort_values_desc snd (groupby_sum mCustomer Sales fm))))"
    by (rule sort_values_desc_sorted)
  then have "sorted (rev (take 10 (map snd (sort_values_desc snd (groupby_sum mCustomer Sales fm)))))"
    by (simp add: rev_take sorted_wrt_drop)
  then show ?thesis
    by (simp add: sales_by_customer_def take_map)
qed

lemma profit_chart_of_all_rows:
  assumes "mapM (add_profit L) m = Inr pm" and "top_staff (filtered_merged sel m) = Inr n"
  shows "Profit_Chart (top_profit_items pm) \<in> set (fst (dashboard L m sel))"
  using assms by (simp add: dashboard_def Let_def)

text \<open>
  C3. The sales by staff and by customer are grouped over \<open>filtered_merged\<close>, the rows
  of the date range and of the selected staff, but line 176 groups the profit by item
  over \<open>merged\<close>, the rows of the date range of every staff member and of none. With only
  Alice selected, whose one sale is of cod, the profit chart still shows crab, sold by
  Carol, and counts the cod sold by an unknown user.
\<close>

theorem profit_chart_ignores_staff_filter:
  "run plain example_transactions example_items example_staff (2024, 1, 1) (2024, 1, 3)
     (Some [''Alice''])
   = ([Metric ''Total Sales (RRP)'' ''$10.00'' None,
       Metric ''Transactions'' ''1'' None,
       Metric ''Top Seller'' ''Alice'' (Some ''$10.00''),
       Staff_Chart [(''Alice'', 10)],
       Pay_Summary [(''Alice'', ''$10.00'', ''$3.00'')],
       Profit_Chart [(''Crab'', 27 / 2, 3), (''Cod'', 9, 3)],
       Customer_Chart [(''Bob'', 10)],
       Transactions_Table
         [(Some \<lparr>year = 2024, month = 1, day = 1, hour = 0, minute = 0, second = 0\<rparr>,
           Some ''Alice'', Some ''Cod'', Some ''Bob'', ''$10.00'')]],
      None)"
  by code_simp

end
